theory Spec2Isabelle
  imports Complex_Main "HOL-Library.Sublist" "HOL-Library.Char_ord"
    "HOL-Library.List_Lexorder" "HOL-Library.Multiset"
begin

section \<open>Data model of the registry front-end\<close>

text \<open>
  The interfaces \<^verbatim>\<open>Asset\<close> and \<^verbatim>\<open>Pair\<close> of \<^verbatim>\<open>src/App.tsx\<close>. A TypeScript
  \<^verbatim>\<open>string\<close> is a \<^typ>\<open>string\<close>; a \<^verbatim>\<open>number\<close> that was parsed from a JSON body is a
  finite value, and finite values compare like the rationals they denote, so it is a
  \<^typ>\<open>rat\<close>.
\<close>

record balance =
  settled :: rat
  future :: rat
  spendable :: rat
  offchain_outbound :: rat
  offchain_inbound :: rat

record asset =
  asset_id :: string
  asset_iface :: string
  ticker :: string
  name :: string
  precision :: rat
  issued_supply :: rat
  asset_is_active :: bool
  asset_balance :: balance

record pair =
  pair_id :: string
  base_asset :: string
  base_asset_id :: string
  quote_asset :: string
  quote_asset_id :: string
  is_active :: bool
  min_order_size :: rat
  max_order_size :: rat
  price_precision :: rat
  quantity_precision :: rat

text \<open>The bodies of the two endpoints, \<^verbatim>\<open>{ assets: Asset[] }\<close> and \<^verbatim>\<open>{ pairs: Pair[] }\<close>.\<close>

record assets_response =
  assets :: "asset list"

record pairs_response =
  pairs :: "pair list"

section \<open>String primitives\<close>

text \<open>
  Strings are sequences of 8-bit characters, which covers the ASCII symbols and
  identifiers that the API serves. \<^verbatim>\<open>String.prototype.toLowerCase\<close> maps the letters
  \<^verbatim>\<open>A\<close> to \<^verbatim>\<open>Z\<close> to \<^verbatim>\<open>a\<close> to \<^verbatim>\<open>z\<close> and leaves every other character as it
  is.
\<close>

definition lower_char :: "char \<Rightarrow> char" where
  "lower_char c =
     (if CHR ''A'' \<le> c \<and> c \<le> CHR ''Z'' then char_of (of_char c + (32::nat)) else c)"

definition toLowerCase :: "string \<Rightarrow> string" where
  "toLowerCase s = map lower_char s"

text \<open>
  \<^verbatim>\<open>s.includes(t)\<close>: some position of \<open>s\<close> starts an occurrence of \<open>t\<close>. The search
  tries every position from the left, the end of \<open>s\<close> included (where only the empty
  text occurs).
\<close>

fun starts_with :: "string \<Rightarrow> string \<Rightarrow> bool" where
  "starts_with s [] = True"
| "starts_with [] (d # t) = False"
| "starts_with (c # s) (d # t) = (c = d \<and> starts_with s t)"

fun includes_str :: "string \<Rightarrow> string \<Rightarrow> bool" where
  "includes_str [] t = starts_with [] t"
| "includes_str (c # s) t = (starts_with (c # s) t \<or> includes_str s t)"

section \<open>The pair and asset filters\<close>

text \<open>
  The predicate handed to \<^verbatim>\<open>Array.prototype.filter\<close> in \<^verbatim>\<open>filteredPairs\<close>; the
  template literal is the concatenation of base symbol, a slash and quote symbol.
\<close>

definition pair_matches :: "string \<Rightarrow> pair \<Rightarrow> bool" where
  "pair_matches pairFilter p =
     (includes_str (toLowerCase (base_asset p @ ''/'' @ quote_asset p)) (toLowerCase pairFilter)
      \<or> includes_str (toLowerCase (base_asset_id p)) (toLowerCase pairFilter)
      \<or> includes_str (toLowerCase (quote_asset_id p)) (toLowerCase pairFilter))"

text \<open>
  \<^verbatim>\<open>pairsData?.pairs.filter(...) || []\<close>: the query's data is \<^verbatim>\<open>undefined\<close> until the
  fetch has succeeded (\<open>None\<close>); the optional chain then yields \<^verbatim>\<open>undefined\<close> and the
  \<^verbatim>\<open>||\<close> supplies the empty array. An array is always truthy, so on fetched data the
  result is the filtered array itself.
\<close>

definition filteredPairs :: "pairs_response option \<Rightarrow> string \<Rightarrow> pair list" where
  "filteredPairs pairsData pairFilter =
     (case pairsData of
        None \<Rightarrow> []
      | Some d \<Rightarrow> filter (pair_matches pairFilter) (pairs d))"

definition asset_matches :: "string \<Rightarrow> asset \<Rightarrow> bool" where
  "asset_matches assetFilter a =
     (includes_str (toLowerCase (ticker a)) (toLowerCase assetFilter)
      \<or> includes_str (toLowerCase (name a)) (toLowerCase assetFilter)
      \<or> includes_str (toLowerCase (asset_id a)) (toLowerCase assetFilter))"

definition filteredAssets :: "assets_response option \<Rightarrow> string \<Rightarrow> asset list" where
  "filteredAssets assetsData assetFilter =
     (case assetsData of
        None \<Rightarrow> []
      | Some d \<Rightarrow> filter (asset_matches assetFilter) (assets d))"

section \<open>Sorting\<close>

datatype direction = Asc | Desc

text \<open>
  The arrow function handed to \<^verbatim>\<open>sort\<close> in \<^verbatim>\<open>sortData\<close>. Its two tests
  \<^verbatim>\<open>a[key] < b[key]\<close> and \<^verbatim>\<open>a[key] > b[key]\<close> are parameters \<open>lt\<close> and \<open>gt\<close>: what they
  compute depends on the element type, which is generic in the source.
\<close>

definition comparator ::
  "('a \<Rightarrow> 'a \<Rightarrow> bool) \<Rightarrow> ('a \<Rightarrow> 'a \<Rightarrow> bool) \<Rightarrow> direction \<Rightarrow> 'a \<Rightarrow> 'a \<Rightarrow> int" where
  "comparator lt gt dir a b =
     (if lt a b then (if dir = Asc then - 1 else 1)
      else if gt a b then (if dir = Asc then 1 else - 1)
      else 0)"

text \<open>
  \<^verbatim>\<open>Array.prototype.sort(comparefn)\<close>. The language fixes its result, for a consistent
  comparison function, as the stable arrangement in which no element is followed by one
  that compares below it; the sequence of comparisons is left to the engine. The model is
  the stable insertion sort: an element goes in front of the first later element that it
  does not compare above (\<open>comparefn\<close> gives a value that is not positive).
\<close>

fun insert_sorted :: "('a \<Rightarrow> 'a \<Rightarrow> int) \<Rightarrow> 'a \<Rightarrow> 'a list \<Rightarrow> 'a list" where
  "insert_sorted cmp x [] = [x]"
| "insert_sorted cmp x (y # ys) =
     (if cmp x y \<le> 0 then x # y # ys else y # insert_sorted cmp x ys)"

definition array_sort :: "('a \<Rightarrow> 'a \<Rightarrow> int) \<Rightarrow> 'a list \<Rightarrow> 'a list" where
  "array_sort cmp xs = foldr (insert_sorted cmp) xs []"

text \<open>
  \<^verbatim>\<open>sortData(data, key, direction)\<close>, as a function from the array's content to the
  content of the array it returns. \<open>field_lt k\<close> and \<open>field_gt k\<close> are the two tests on
  property \<open>k\<close> of the element type.
\<close>

definition sortData ::
  "(string \<Rightarrow> 'a \<Rightarrow> 'a \<Rightarrow> bool) \<Rightarrow> (string \<Rightarrow> 'a \<Rightarrow> 'a \<Rightarrow> bool) \<Rightarrow>
     'a list \<Rightarrow> string \<Rightarrow> direction \<Rightarrow> 'a list" where
  "sortData field_lt field_gt data k dir =
     array_sort (comparator (field_lt k) (field_gt k) dir) data"

text \<open>
  The tests \<^verbatim>\<open>a[key] < b[key]\<close> and \<^verbatim>\<open>a[key] > b[key]\<close> on two \<^verbatim>\<open>Pair\<close> objects. Both
  operands are the same property of the same interface: strings compare by their code
  units, lexicographically; numbers by value; booleans with \<^verbatim>\<open>false\<close> below \<^verbatim>\<open>true\<close>.
  A key that is no property of a pair reads \<^verbatim>\<open>undefined\<close> on both sides (or the same
  inherited object), and both tests are false.
\<close>

definition pair_lt :: "string \<Rightarrow> pair \<Rightarrow> pair \<Rightarrow> bool" where
  "pair_lt k a b =
     (if k = ''id'' then pair_id a < pair_id b
      else if k = ''base_asset'' then base_asset a < base_asset b
      else if k = ''base_asset_id'' then base_asset_id a < base_asset_id b
      else if k = ''quote_asset'' then quote_asset a < quote_asset b
      else if k = ''quote_asset_id'' then quote_asset_id a < quote_asset_id b
      else if k = ''is_active'' then is_active a < is_active b
      else if k = ''min_order_size'' then min_order_size a < min_order_size b
      else if k = ''max_order_size'' then max_order_size a < max_order_size b
      else if k = ''price_precision'' then price_precision a < price_precision b
      else if k = ''quantity_precision'' then quantity_precision a < quantity_precision b
      else False)"

definition pair_gt :: "string \<Rightarrow> pair \<Rightarrow> pair \<Rightarrow> bool" where
  "pair_gt k a b =
     (if k = ''id'' then pair_id a > pair_id b
      else if k = ''base_asset'' then base_asset a > base_asset b
      else if k = ''base_asset_id'' then base_asset_id a > base_asset_id b
      else if k = ''quote_asset'' then quote_asset a > quote_asset b
      else if k = ''quote_asset_id'' then quote_asset_id a > quote_asset_id b
      else if k = ''is_active'' then is_active a > is_active b
      else if k = ''min_order_size'' then min_order_size a > min_order_size b
      else if k = ''max_order_size'' then max_order_size a > max_order_size b
      else if k = ''price_precision'' then price_precision a > price_precision b
      else if k = ''quantity_precision'' then quantity_precision a > quantity_precision b
      else False)"

text \<open>
  The same tests on two \<^verbatim>\<open>Asset\<close> objects. The property \<^verbatim>\<open>balance\<close> holds an object;
  two plain objects convert to the same primitive, so neither is below the other and the
  key falls under the last branch.
\<close>

definition asset_lt :: "string \<Rightarrow> asset \<Rightarrow> asset \<Rightarrow> bool" where
  "asset_lt k a b =
     (if k = ''asset_id'' then asset_id a < asset_id b
      else if k = ''asset_iface'' then asset_iface a < asset_iface b
      else if k = ''ticker'' then ticker a < ticker b
      else if k = ''name'' then name a < name b
      else if k = ''precision'' then precision a < precision b
      else if k = ''issued_supply'' then issued_supply a < issued_supply b
      else if k = ''is_active'' then asset_is_active a < asset_is_active b
      else False)"

definition asset_gt :: "string \<Rightarrow> asset \<Rightarrow> asset \<Rightarrow> bool" where
  "asset_gt k a b =
     (if k = ''asset_id'' then asset_id a > asset_id b
      else if k = ''asset_iface'' then asset_iface a > asset_iface b
      else if k = ''ticker'' then ticker a > ticker b
      else if k = ''name'' then name a > name b
      else if k = ''precision'' then precision a > precision b
      else if k = ''issued_supply'' then issued_supply a > issued_supply b
      else if k = ''is_active'' then asset_is_active a > asset_is_active b
      else False)"

text \<open>The state \<^verbatim>\<open>sortConfig\<close>: \<^verbatim>\<open>null\<close> is \<open>None\<close>.\<close>

record sort_config =
  key :: string
  direction :: direction

text \<open>
  \<^verbatim>\<open>sortConfig && filtered.length > 0 ? sortData(filtered, sortConfig.key,
  sortConfig.direction) : filtered\<close>, for pairs and (in the variant with an asset search)
  for assets.
\<close>

definition sortedPairs :: "sort_config option \<Rightarrow> pair list \<Rightarrow> pair list" where
  "sortedPairs sortConfig filtered =
     (case sortConfig of
        None \<Rightarrow> filtered
      | Some c \<Rightarrow>
          if length filtered > 0 then sortData pair_lt pair_gt filtered (key c) (direction c)
          else filtered)"

definition sortedAssets :: "sort_config option \<Rightarrow> asset list \<Rightarrow> asset list" where
  "sortedAssets sortConfig filtered =
     (case sortConfig of
        None \<Rightarrow> filtered
      | Some c \<Rightarrow>
          if length filtered > 0 then sortData asset_lt asset_gt filtered (key c) (direction c)
          else filtered)"

section \<open>The pipeline over a store of arrays\<close>

text \<open>
  Arrays are objects with identity: \<^verbatim>\<open>sort\<close> reorders the array it is called on and
  returns that same array, while the spread \<^verbatim>\<open>[...data]\<close>, \<^verbatim>\<open>filter\<close> and the literal
  \<^verbatim>\<open>[]\<close> create a new one. The store is the list of all arrays created so far, and a
  reference is a position in it; a new array takes the next position.
\<close>

type_synonym 'a store = "'a list list"

definition alloc :: "'a store \<Rightarrow> 'a list \<Rightarrow> 'a store \<times> nat" where
  "alloc h xs = (h @ [xs], length h)"

definition spread :: "'a store \<Rightarrow> nat \<Rightarrow> 'a store \<times> nat" where
  "spread h r = alloc h (h ! r)"

definition sort_in_place :: "'a store \<Rightarrow> nat \<Rightarrow> ('a \<Rightarrow> 'a \<Rightarrow> int) \<Rightarrow> 'a store \<times> nat" where
  "sort_in_place h r cmp = (h[r := array_sort cmp (h ! r)], r)"

definition array_filter :: "'a store \<Rightarrow> nat \<Rightarrow> ('a \<Rightarrow> bool) \<Rightarrow> 'a store \<times> nat" where
  "array_filter h r pred = alloc h (filter pred (h ! r))"

definition sortData_store ::
  "(string \<Rightarrow> 'a \<Rightarrow> 'a \<Rightarrow> bool) \<Rightarrow> (string \<Rightarrow> 'a \<Rightarrow> 'a \<Rightarrow> bool) \<Rightarrow>
     'a store \<Rightarrow> nat \<Rightarrow> string \<Rightarrow> direction \<Rightarrow> 'a store \<times> nat" where
  "sortData_store field_lt field_gt h data k dir =
     (case spread h data of
        (h1, copy) \<Rightarrow> sort_in_place h1 copy (comparator (field_lt k) (field_gt k) dir))"

definition filteredPairs_store :: "pair store \<Rightarrow> nat option \<Rightarrow> string \<Rightarrow> pair store \<times> nat" where
  "filteredPairs_store h pairsData pairFilter =
     (case pairsData of
        None \<Rightarrow> alloc h []
      | Some r \<Rightarrow> array_filter h r (pair_matches pairFilter))"

definition sortedPairs_store ::
  "pair store \<Rightarrow> sort_config option \<Rightarrow> nat \<Rightarrow> pair store \<times> nat" where
  "sortedPairs_store h sortConfig filtered =
     (case sortConfig of
        None \<Rightarrow> (h, filtered)
      | Some c \<Rightarrow>
          if length (h ! filtered) > 0
          then sortData_store pair_lt pair_gt h filtered (key c) (direction c)
          else (h, filtered))"

definition pairs_pipeline_store ::
  "pair store \<Rightarrow> nat option \<Rightarrow> string \<Rightarrow> sort_config option \<Rightarrow> pair store \<times> nat" where
  "pairs_pipeline_store h pairsData pairFilter sortConfig =
     (case filteredPairs_store h pairsData pairFilter of
        (h1, filtered) \<Rightarrow> sortedPairs_store h1 sortConfig filtered)"

section \<open>The data fetcher\<close>

text \<open>
  The value \<^verbatim>\<open>ApiError\<close> that a query function throws; an optional property that is
  \<^verbatim>\<open>undefined\<close> is \<open>None\<close>.
\<close>

record api_error =
  message :: string
  code :: "string option"
  details :: "string option"

text \<open>
  What the handler reads of an error that \<^verbatim>\<open>axios.isAxiosError\<close> accepts: its
  \<^verbatim>\<open>code\<close>, its \<^verbatim>\<open>message\<close>, and the \<^verbatim>\<open>message\<close> property of the body of its
  \<^verbatim>\<open>response\<close>. There is no response when none was received, and a body need not be an
  object with a \<^verbatim>\<open>message\<close>.
\<close>

record response_body =
  body_message :: "string option"

record axios_response =
  status :: nat
  data :: "response_body option"

record axios_error =
  error_code :: "string option"
  response :: "axios_response option"
  error_message :: string



datatype query_error = Api api_error | Unexpected string

text \<open>\<^verbatim>\<open>error.response?.data?.message\<close>\<close>

definition server_message :: "axios_error \<Rightarrow> string option" where
  "server_message e =
     (case response e of
        None \<Rightarrow> None
      | Some r \<Rightarrow> (case data r of None \<Rightarrow> None | Some b \<Rightarrow> body_message b))"

text \<open>
  \<^verbatim>\<open>x || y\<close> on an optional string \<open>x\<close>: the left operand when it is truthy, that is
  present and not the empty string, and the right operand otherwise.
\<close>

definition or_else :: "string option \<Rightarrow> string \<Rightarrow> string" where
  "or_else x y = (case x of None \<Rightarrow> y | Some s \<Rightarrow> if s = [] then y else s)"

definition normalize :: "string \<Rightarrow> axios_error \<Rightarrow> api_error" where
  "normalize summary e =
     \<lparr>message = summary, code = error_code e,
      details = Some (or_else (server_message e) (error_message e))\<rparr>"



section \<open>What the two sections render\<close>

text \<open>
  A query is pending, has succeeded with the data its query function returned, or has
  failed with the value its query function threw. The component observes it as the three
  values \<^verbatim>\<open>data\<close>, \<^verbatim>\<open>isLoading\<close> and \<^verbatim>\<open>error\<close>: the loading flag is set while the
  query is pending, the data is defined after a success and the error after a failure.
\<close>

datatype 'd query = Pending | Succeeded 'd | Failed query_error

definition query_data :: "'d query \<Rightarrow> 'd option" where
  "query_data q = (case q of Succeeded d \<Rightarrow> Some d | _ \<Rightarrow> None)"

definition query_isLoading :: "'d query \<Rightarrow> bool" where
  "query_isLoading q = (case q of Pending \<Rightarrow> True | _ \<Rightarrow> False)"

definition query_error :: "'d query \<Rightarrow> query_error option" where
  "query_error q = (case q of Failed e \<Rightarrow> Some e | _ \<Rightarrow> None)"

text \<open>The values in scope of the markup of \<^verbatim>\<open>Registry\<close>.\<close>

record registry =
  assetsData :: "assets_response option"
  isLoadingAssets :: bool
  assetsError :: "query_error option"
  pairsData :: "pairs_response option"
  isLoadingPairs :: bool
  pairsError :: "query_error option"
  pairFilter :: string
  sortConfig :: "sort_config option"

definition registry_of ::
  "assets_response query \<Rightarrow> pairs_response query \<Rightarrow> string \<Rightarrow> sort_config option \<Rightarrow> registry" where
  "registry_of assetsQuery pairsQuery text cfg =
     \<lparr>assetsData = query_data assetsQuery,
      isLoadingAssets = query_isLoading assetsQuery,
      assetsError = query_error assetsQuery,
      pairsData = query_data pairsQuery,
      isLoadingPairs = query_isLoading pairsQuery,
      pairsError = query_error pairsQuery,
      pairFilter = text, sortConfig = cfg\<rparr>"

text \<open>
  The assets card: a spinner in its heading, an alert above its table, and one table row
  for each fetched asset. The alert shows
  \<^verbatim>\<open>(assetsError as ApiError).message || 'An unexpected error occurred'\<close>.
\<close>

record assets_view =
  spinner :: bool
  alert :: "string option"
  rows :: "asset list"

definition error_text :: "query_error \<Rightarrow> string" where
  "error_text e = (case e of Api a \<Rightarrow> message a | Unexpected m \<Rightarrow> m)"

definition assets_section :: "registry \<Rightarrow> assets_view" where
  "assets_section s =
     \<lparr>spinner = isLoadingAssets s,
      alert =
        (case assetsError s of
           None \<Rightarrow> None
         | Some e \<Rightarrow> Some (or_else (Some (error_text e)) ''An unexpected error occurred'')),
      rows = (case assetsData s of None \<Rightarrow> [] | Some d \<Rightarrow> assets d)\<rparr>"

text \<open>
  The table handed to every \<^verbatim>\<open>PairCard\<close>:
  \<^verbatim>\<open>assetsData?.assets.reduce((acc, asset) => { acc[asset.asset_id] = asset; return acc }, {}) || {}\<close>.
\<close>

definition assets_by_id :: "assets_response option \<Rightarrow> (string \<rightharpoonup> asset)" where
  "assets_by_id d =
     (case d of
        None \<Rightarrow> Map.empty
      | Some r \<Rightarrow> foldl (\<lambda>acc a. acc(asset_id a \<mapsto> a)) Map.empty (assets r))"

text \<open>
  The trading-pairs section: a spinner, or one alert with a fixed text, or the grid of
  cards (one for each sorted pair, each with the table of assets) together with the
  notice that is shown when there is no card.
\<close>

datatype pairs_view =
  PairsSpinner
  | PairsAlert string
  | PairsGrid "pair list" "string \<rightharpoonup> asset" bool

definition pairs_section :: "registry \<Rightarrow> pairs_view" where
  "pairs_section s =
     (if isLoadingPairs s \<or> isLoadingAssets s then PairsSpinner
      else if pairsError s \<noteq> None \<or> assetsError s \<noteq> None
      then PairsAlert ''Failed to load data. Please try again later.''
      else
        (let sorted = sortedPairs (sortConfig s) (filteredPairs (pairsData s) (pairFilter s))
         in PairsGrid sorted (assets_by_id (assetsData s)) (length sorted = 0)))"

section \<open>Example data\<close>

definition btc_usd :: pair where
  "btc_usd = \<lparr>pair_id = ''p1'', base_asset = ''BTC'', base_asset_id = ''BTC'',
     quote_asset = ''USD'', quote_asset_id = ''rgb:usd'', is_active = True,
     min_order_size = 1, max_order_size = 100, price_precision = 2,
     quantity_precision = 8\<rparr>"

definition eth_usd :: pair where
  "eth_usd = \<lparr>pair_id = ''p2'', base_asset = ''ETH'', base_asset_id = ''rgb:eth'',
     quote_asset = ''USD'', quote_asset_id = ''rgb:usd'', is_active = False,
     min_order_size = 1 / 2, max_order_size = 50, price_precision = 2,
     quantity_precision = 6\<rparr>"

definition db_down :: axios_error where
  "db_down = \<lparr>error_code = Some ''ERR_BAD_RESPONSE'',
     response = Some \<lparr>status = 500, data = Some \<lparr>body_message = Some ''db down''\<rparr>\<rparr>,
     error_message = ''Request failed with status code 500''\<rparr>"

definition usd_asset :: asset where
  "usd_asset = \<lparr>asset_id = ''rgb:usd'', asset_iface = ''RGB20'', ticker = ''USD'',
     name = ''Dollar'', precision = 2, issued_supply = 1000000, asset_is_active = True,
     asset_balance = \<lparr>settled = 10, future = 10, spendable = 10, offchain_outbound = 0,
       offchain_inbound = 0\<rparr>\<rparr>"

section \<open>Substring search\<close>



lemma includes_empty: "includes_str s []"
  by (induction s) simp_all

lemma toLowerCase_empty: "toLowerCase [] = []"
  by (simp add: toLowerCase_def)

lemma pair_matches_empty: "pair_matches [] p"
  by (simp add: pair_matches_def toLowerCase_empty includes_empty)

section \<open>Properties of the pair filter\<close>


text \<open>Of the pairs \<open>BTC/USD\<close> and \<open>ETH/USD\<close> the text \<open>btc\<close> keeps the first only.\<close>

lemma scenario_btc:
  "filteredPairs (Some \<lparr>pairs = [btc_usd, eth_usd]\<rparr>) ''btc'' = [btc_usd]"
  by code_simp

text \<open>
  Claim C6. The empty filter text keeps every pair: filtering a fetched collection with
  the empty text returns the collection itself, in its order.
\<close>

theorem filteredPairs_empty_text:
  "filteredPairs (Some \<lparr>pairs = P\<rparr>) [] = P"
  by (simp add: filteredPairs_def pair_matches_empty)

text \<open>
  Claim C10. Whether the filter keeps a pair is decided by its base symbol, quote symbol,
  base asset id and quote asset id alone: two pairs that agree on these four fields are
  both kept or both dropped by the same filter text, whatever their other fields are.
\<close>

theorem pair_matches_noninterference:
  assumes "base_asset p = base_asset q" and "quote_asset p = quote_asset q"
    and "base_asset_id p = base_asset_id q" and "quote_asset_id p = quote_asset_id q"
  shows "pair_matches t p = pair_matches t q
    \<and> (filteredPairs (Some \<lparr>pairs = [p]\<rparr>) t = [p]) = (filteredPairs (Some \<lparr>pairs = [q]\<rparr>) t = [q])"
  using assms by (simp add: pair_matches_def filteredPairs_def)

theorem pair_matches_noninterference_witness:
  "base_asset btc_usd = base_asset (btc_usd\<lparr>pair_id := ''p9'', is_active := False, min_order_size := 7\<rparr>)
   \<and> pair_matches ''usd'' btc_usd
   \<and> pair_matches ''usd'' (btc_usd\<lparr>pair_id := ''p9'', is_active := False, min_order_size := 7\<rparr>)
   \<and> \<not> pair_matches ''eth'' btc_usd
   \<and> \<not> pair_matches ''eth'' (btc_usd\<lparr>pair_id := ''p9'', is_active := False, min_order_size := 7\<rparr>)"
proof -
  let ?q = "btc_usd\<lparr>pair_id := ''p9'', is_active := False, min_order_size := 7\<rparr>"
  have same: "base_asset btc_usd = base_asset ?q" "quote_asset btc_usd = quote_asset ?q"
    "base_asset_id btc_usd = base_asset_id ?q" "quote_asset_id btc_usd = quote_asset_id ?q"
    by simp_all
  have kept: "pair_matches ''usd'' btc_usd" by code_simp
  have dropped: "\<not> pair_matches ''eth'' btc_usd" by code_simp
  from pair_matches_noninterference [OF same, of "''usd''"]
    pair_matches_noninterference [OF same, of "''eth''"] same(1) kept dropped
  show ?thesis by blast
qed

section \<open>Properties of sorting\<close>

lemma mset_insert_sorted: "mset (insert_sorted cmp x ys) = add_mset x (mset ys)"
  by (induction ys) simp_all

lemma mset_array_sort: "mset (array_sort cmp xs) = mset xs"
  by (induction xs) (simp_all add: array_sort_def mset_insert_sorted)

lemma set_insert_sorted: "set (insert_sorted cmp x ys) = insert x (set ys)"
  by (induction ys) auto

lemma array_sort_Cons: "array_sort cmp (x # xs) = insert_sorted cmp x (array_sort cmp xs)"
  by (simp add: array_sort_def)

lemma sorted_insert_sorted:
  assumes total: "\<And>a b. cmp a b \<le> 0 \<or> cmp b a \<le> 0"
    and trans: "\<And>a b c. cmp a b \<le> 0 \<Longrightarrow> cmp b c \<le> 0 \<Longrightarrow> cmp a c \<le> 0"
    and "sorted_wrt (\<lambda>a b. cmp a b \<le> 0) ys"
  shows "sorted_wrt (\<lambda>a b. cmp a b \<le> 0) (insert_sorted cmp x ys)"
  using assms(3)
proof (induction ys)
  case Nil
  then show ?case by simp
next
  case (Cons y ys)
  show ?case
  proof (cases "cmp x y \<le> 0")
    case True
    with Cons.prems trans show ?thesis by auto
  next
    case False
    with total have "cmp y x \<le> 0" by blast
    with False Cons show ?thesis by (auto simp: set_insert_sorted)
  qed
qed

lemma sorted_array_sort:
  assumes total: "\<And>a b. cmp a b \<le> 0 \<or> cmp b a \<le> 0"
    and trans: "\<And>a b c. cmp a b \<le> 0 \<Longrightarrow> cmp b c \<le> 0 \<Longrightarrow> cmp a c \<le> 0"
  shows "sorted_wrt (\<lambda>a b. cmp a b \<le> 0) (array_sort cmp xs)"
proof (induction xs)
  case Nil
  show ?case by (simp add: array_sort_def)
next
  case (Cons x xs)
  with sorted_insert_sorted [of cmp "array_sort cmp xs" x, OF total trans]
  show ?case by (simp add: array_sort_Cons)
qed

lemma array_sort_sorted_id:
  "sorted_wrt (\<lambda>a b. cmp a b \<le> 0) xs \<Longrightarrow> array_sort cmp xs = xs"
proof (induction xs)
  case Nil
  show ?case by (simp add: array_sort_def)
next
  case (Cons x xs)
  then have "array_sort cmp xs = xs" by simp
  then have "array_sort cmp (x # xs) = insert_sorted cmp x xs"
    by (simp add: array_sort_Cons)
  also have "\<dots> = x # xs" using Cons.prems by (cases xs) auto
  finally show ?case .
qed

text \<open>
  When the greater-than test is the converse of the less-than test, and less-than is
  asymmetric with a transitive complement, the comparison function is consistent.
\<close>

lemma comparator_Asc_le:
  assumes "\<And>a b. gt a b = lt b a" and "\<And>a b. lt a b \<Longrightarrow> \<not> lt b a"
  shows "comparator lt gt Asc a b \<le> 0 \<longleftrightarrow> \<not> gt a b"
  using assms by (auto simp: comparator_def)

lemma comparator_Desc_le:
  assumes "\<And>a b. gt a b = lt b a" and "\<And>a b. lt a b \<Longrightarrow> \<not> lt b a"
  shows "comparator lt gt Desc a b \<le> 0 \<longleftrightarrow> \<not> lt a b"
  using assms by (auto simp: comparator_def)

lemma comparator_total:
  assumes conv: "\<And>a b. gt a b = lt b a" and asym: "\<And>a b. lt a b \<Longrightarrow> \<not> lt b a"
  shows "comparator lt gt dir a b \<le> 0 \<or> comparator lt gt dir b a \<le> 0"
  using asym [of a b] asym [of b a] by (cases dir) (auto simp: comparator_def conv)

lemma comparator_trans:
  assumes conv: "\<And>a b. gt a b = lt b a" and asym: "\<And>a b. lt a b \<Longrightarrow> \<not> lt b a"
    and negtrans: "\<And>a b c. \<not> lt a b \<Longrightarrow> \<not> lt b c \<Longrightarrow> \<not> lt a c"
    and ab: "comparator lt gt dir a b \<le> 0" and bc: "comparator lt gt dir b c \<le> 0"
  shows "comparator lt gt dir a c \<le> 0"
proof -
  have asc: "comparator lt gt Asc x y \<le> 0 \<longleftrightarrow> \<not> lt y x" for x y
    using comparator_Asc_le [of gt lt x y] conv asym by blast
  have desc: "comparator lt gt Desc x y \<le> 0 \<longleftrightarrow> \<not> lt x y" for x y
    using comparator_Desc_le [of gt lt x y] conv asym by blast
  show ?thesis
  proof (cases dir)
    case Asc
    with ab bc have "\<not> lt b a" "\<not> lt c b" by (simp_all add: asc)
    then have "\<not> lt c a" using negtrans by blast
    then show ?thesis by (simp add: Asc asc)
  next
    case Desc
    with ab bc have "\<not> lt a b" "\<not> lt b c" by (simp_all add: desc)
    then have "\<not> lt a c" using negtrans by blast
    then show ?thesis by (simp add: Desc desc)
  qed
qed

lemma sortData_sorted_generic:
  assumes conv: "\<And>a b. fgt k a b = flt k b a" and asym: "\<And>a b. flt k a b \<Longrightarrow> \<not> flt k b a"
    and negtrans: "\<And>a b c. \<not> flt k a b \<Longrightarrow> \<not> flt k b c \<Longrightarrow> \<not> flt k a c"
  shows "sorted_wrt (\<lambda>a b. comparator (flt k) (fgt k) dir a b \<le> 0) (sortData flt fgt S k dir)"
  unfolding sortData_def
proof (rule sorted_array_sort)
  fix a b
  show "comparator (flt k) (fgt k) dir a b \<le> 0 \<or> comparator (flt k) (fgt k) dir b a \<le> 0"
    using comparator_total [of "fgt k" "flt k" dir a b] conv asym by blast
next
  fix a b c
  assume "comparator (flt k) (fgt k) dir a b \<le> 0" "comparator (flt k) (fgt k) dir b c \<le> 0"
  then show "comparator (flt k) (fgt k) dir a c \<le> 0"
    using comparator_trans [of "fgt k" "flt k" dir a b c] conv asym negtrans by blast
qed

lemma pair_gt_conv: "pair_gt k a b = pair_lt k b a"
  by (simp add: pair_gt_def pair_lt_def)

lemma pair_lt_asym: "pair_lt k a b \<Longrightarrow> \<not> pair_lt k b a"
  by (auto simp: pair_lt_def split: if_splits)

lemma pair_lt_negtrans: "\<not> pair_lt k a b \<Longrightarrow> \<not> pair_lt k b c \<Longrightarrow> \<not> pair_lt k a c"
  by (auto simp: pair_lt_def split: if_splits)

lemma asset_gt_conv: "asset_gt k a b = asset_lt k b a"
  by (simp add: asset_gt_def asset_lt_def)

lemma asset_lt_asym: "asset_lt k a b \<Longrightarrow> \<not> asset_lt k b a"
  by (auto simp: asset_lt_def split: if_splits)

lemma asset_lt_negtrans: "\<not> asset_lt k a b \<Longrightarrow> \<not> asset_lt k b c \<Longrightarrow> \<not> asset_lt k a c"
  by (auto simp: asset_lt_def split: if_splits)

lemma sortData_pairs_sorted:
  "sorted_wrt (\<lambda>a b. comparator (pair_lt k) (pair_gt k) dir a b \<le> 0)
     (sortData pair_lt pair_gt S k dir)"
  by (rule sortData_sorted_generic [OF pair_gt_conv pair_lt_asym pair_lt_negtrans])

lemma sortData_assets_sorted:
  "sorted_wrt (\<lambda>a b. comparator (asset_lt k) (asset_gt k) dir a b \<le> 0)
     (sortData asset_lt asset_gt S k dir)"
  by (rule sortData_sorted_generic [OF asset_gt_conv asset_lt_asym asset_lt_negtrans])

text \<open>Read on a numeric and on a string field: the field values come out in order.\<close>

lemma sortData_min_order_size_asc:
  "sorted (map min_order_size (sortData pair_lt pair_gt S ''min_order_size'' Asc))"
proof -
  have "(\<lambda>a b. comparator (pair_lt ''min_order_size'') (pair_gt ''min_order_size'') Asc a b \<le> 0)
      = (\<lambda>a b. min_order_size a \<le> min_order_size b)"
    by (intro ext) (auto simp: comparator_def pair_lt_def pair_gt_def)
  with sortData_pairs_sorted [of "''min_order_size''" Asc S] show ?thesis
    by (simp add: sorted_map)
qed

lemma sortData_base_asset_desc:
  "sorted (rev (map base_asset (sortData pair_lt pair_gt S ''base_asset'' Desc)))"
proof -
  have "(\<lambda>a b. comparator (pair_lt ''base_asset'') (pair_gt ''base_asset'') Desc a b \<le> 0)
      = (\<lambda>a b. base_asset b \<le> base_asset a)"
    by (intro ext) (auto simp: comparator_def pair_lt_def pair_gt_def)
  with sortData_pairs_sorted [of "''base_asset''" Desc S] show ?thesis
    by (simp add: sorted_map rev_map sorted_wrt_rev)
qed

text \<open>Elements that the comparison function does not order keep their relative order.\<close>

lemma filter_insert_sorted:
  assumes trans: "\<And>a b c. cmp a b \<le> 0 \<Longrightarrow> cmp b c \<le> 0 \<Longrightarrow> cmp a c \<le> 0"
    and total: "\<And>a b. cmp a b \<le> 0 \<or> cmp b a \<le> 0"
  shows "filter (\<lambda>y. cmp x y \<le> 0 \<and> cmp y x \<le> 0) (insert_sorted cmp a ys) =
     (if cmp x a \<le> 0 \<and> cmp a x \<le> 0
      then a # filter (\<lambda>y. cmp x y \<le> 0 \<and> cmp y x \<le> 0) ys
      else filter (\<lambda>y. cmp x y \<le> 0 \<and> cmp y x \<le> 0) ys)"
proof (induction ys)
  case Nil
  show ?case by simp
next
  case (Cons y ys)
  show ?case
  proof (cases "cmp a y \<le> 0")
    case True
    then show ?thesis by simp
  next
    case False
    have "\<not> (cmp x a \<le> 0 \<and> cmp a x \<le> 0 \<and> cmp x y \<le> 0 \<and> cmp y x \<le> 0)"
      using False trans by blast
    with False Cons.IH show ?thesis by auto
  qed
qed

lemma array_sort_stable:
  assumes trans: "\<And>a b c. cmp a b \<le> 0 \<Longrightarrow> cmp b c \<le> 0 \<Longrightarrow> cmp a c \<le> 0"
    and total: "\<And>a b. cmp a b \<le> 0 \<or> cmp b a \<le> 0"
  shows "filter (\<lambda>y. cmp x y \<le> 0 \<and> cmp y x \<le> 0) (array_sort cmp xs) =
     filter (\<lambda>y. cmp x y \<le> 0 \<and> cmp y x \<le> 0) xs"
proof (induction xs)
  case Nil
  show ?case by (simp add: array_sort_def)
next
  case (Cons a xs)
  then show ?case
    by (simp add: array_sort_Cons filter_insert_sorted [of cmp, OF trans total])
qed

lemma sortData_pairs_stable:
  "filter (\<lambda>y. \<not> pair_lt k x y \<and> \<not> pair_gt k x y) (sortData pair_lt pair_gt S k dir)
   = filter (\<lambda>y. \<not> pair_lt k x y \<and> \<not> pair_gt k x y) S"
proof -
  let ?cmp = "comparator (pair_lt k) (pair_gt k) dir"
  have eq: "(\<lambda>y. ?cmp x y \<le> 0 \<and> ?cmp y x \<le> 0) = (\<lambda>y. \<not> pair_lt k x y \<and> \<not> pair_gt k x y)"
    by (cases dir) (auto simp: comparator_def pair_gt_conv dest: pair_lt_asym)
  have "filter (\<lambda>y. ?cmp x y \<le> 0 \<and> ?cmp y x \<le> 0) (array_sort ?cmp S) =
     filter (\<lambda>y. ?cmp x y \<le> 0 \<and> ?cmp y x \<le> 0) S"
  proof (rule array_sort_stable)
    fix a b c
    assume "?cmp a b \<le> 0" "?cmp b c \<le> 0"
    then show "?cmp a c \<le> 0"
      using comparator_trans [of "pair_gt k" "pair_lt k" dir a b c]
        pair_gt_conv pair_lt_asym pair_lt_negtrans by blast
  next
    fix a b
    show "?cmp a b \<le> 0 \<or> ?cmp b a \<le> 0"
      using comparator_total [of "pair_gt k" "pair_lt k" dir a b] pair_gt_conv pair_lt_asym
      by blast
  qed
  then show ?thesis
    unfolding eq sortData_def .
qed

text \<open>
  Claim C2. For every list of pairs (and every list of assets), every sort key and both
  directions, the result of \<open>sortData\<close> is a permutation of its input; ascending, no
  element is followed by one whose key field is smaller, and descending, no element is
  followed by one whose key field is greater.
\<close>

theorem sortData_permutation_monotone:
  "mset (sortData pair_lt pair_gt S k dir) = mset S
   \<and> sorted_wrt (\<lambda>a b. \<not> pair_gt k a b) (sortData pair_lt pair_gt S k Asc)
   \<and> sorted_wrt (\<lambda>a b. \<not> pair_lt k a b) (sortData pair_lt pair_gt S k Desc)
   \<and> mset (sortData asset_lt asset_gt A k dir) = mset A
   \<and> sorted_wrt (\<lambda>a b. \<not> asset_gt k a b) (sortData asset_lt asset_gt A k Asc)
   \<and> sorted_wrt (\<lambda>a b. \<not> asset_lt k a b) (sortData asset_lt asset_gt A k Desc)"
proof -
  have p_asc: "(\<lambda>a b. comparator (pair_lt k) (pair_gt k) Asc a b \<le> 0) = (\<lambda>a b. \<not> pair_gt k a b)"
    by (intro ext comparator_Asc_le pair_gt_conv pair_lt_asym)
  have p_desc: "(\<lambda>a b. comparator (pair_lt k) (pair_gt k) Desc a b \<le> 0) = (\<lambda>a b. \<not> pair_lt k a b)"
    by (intro ext comparator_Desc_le pair_gt_conv pair_lt_asym)
  have a_asc: "(\<lambda>a b. comparator (asset_lt k) (asset_gt k) Asc a b \<le> 0) = (\<lambda>a b. \<not> asset_gt k a b)"
    by (intro ext comparator_Asc_le asset_gt_conv asset_lt_asym)
  have a_desc: "(\<lambda>a b. comparator (asset_lt k) (asset_gt k) Desc a b \<le> 0) = (\<lambda>a b. \<not> asset_lt k a b)"
    by (intro ext comparator_Desc_le asset_gt_conv asset_lt_asym)
  show ?thesis
    using sortData_pairs_sorted [of k Asc S] sortData_pairs_sorted [of k Desc S]
      sortData_assets_sorted [of k Asc A] sortData_assets_sorted [of k Desc A]
    unfolding p_asc p_desc a_asc a_desc
    by (simp add: sortData_def mset_array_sort)
qed


text \<open>
  Claim C9. When, for the sort key, neither test of the comparison function holds between
  any two elements of the list (the key is absent from every element, or all elements
  carry the same value), \<open>sortData\<close> returns the list in its original order, in both
  directions.
\<close>

theorem sortData_no_order_identity:
  assumes "\<forall>a\<in>set S. \<forall>b\<in>set S. \<not> field_lt k a b \<and> \<not> field_gt k a b"
  shows "sortData field_lt field_gt S k dir = S"
proof -
  have "sorted_wrt (\<lambda>a b. comparator (field_lt k) (field_gt k) dir a b \<le> 0) S"
    using assms by (simp add: sorted_wrt_iff_nth_less comparator_def)
  then show ?thesis
    unfolding sortData_def by (rule array_sort_sorted_id)
qed

theorem sortData_no_order_identity_witness:
  "sortData pair_lt pair_gt [eth_usd, btc_usd] ''volume'' Desc = [eth_usd, btc_usd]
   \<and> sortData pair_lt pair_gt [eth_usd, btc_usd] ''quote_asset'' Asc = [eth_usd, btc_usd]"
  using sortData_no_order_identity [of "[eth_usd, btc_usd]" pair_lt "''volume''" pair_gt Desc]
    sortData_no_order_identity [of "[eth_usd, btc_usd]" pair_lt "''quote_asset''" pair_gt Asc]
  by (simp add: pair_lt_def pair_gt_def eth_usd_def btc_usd_def)

section \<open>Idempotence\<close>

lemma sortData_pairs_idem:
  "sortData pair_lt pair_gt (sortData pair_lt pair_gt S k dir) k dir = sortData pair_lt pair_gt S k dir"
  using array_sort_sorted_id [OF sortData_pairs_sorted [of k dir S]]
  by (simp add: sortData_def)

lemma sortData_assets_idem:
  "sortData asset_lt asset_gt (sortData asset_lt asset_gt S k dir) k dir = sortData asset_lt asset_gt S k dir"
  using array_sort_sorted_id [OF sortData_assets_sorted [of k dir S]]
  by (simp add: sortData_def)

lemma filteredPairs_idem: "filteredPairs (Some \<lparr>pairs = filteredPairs d t\<rparr>) t = filteredPairs d t"
  by (cases d) (simp_all add: filteredPairs_def)


lemma sortedPairs_idem: "sortedPairs cfg (sortedPairs cfg S) = sortedPairs cfg S"
  by (cases cfg; cases S) (simp_all add: sortedPairs_def sortData_pairs_idem)

lemma sortedAssets_idem: "sortedAssets cfg (sortedAssets cfg S) = sortedAssets cfg S"
  by (cases cfg; cases S) (simp_all add: sortedAssets_def sortData_assets_idem)

lemma filteredAssets_idem:
  "filteredAssets (Some \<lparr>assets = filteredAssets d t\<rparr>) t = filteredAssets d t"
  by (cases d) (simp_all add: filteredAssets_def)

text \<open>
  Claim C5. Filtering an already filtered result with the same text returns it unchanged,
  and sorting an already sorted result with the same key and direction returns it
  unchanged, for pairs and for assets.
\<close>

theorem filter_sort_idempotent:
  "filteredPairs (Some \<lparr>pairs = filteredPairs d t\<rparr>) t = filteredPairs d t
   \<and> filteredAssets (Some \<lparr>assets = filteredAssets d' t\<rparr>) t = filteredAssets d' t
   \<and> sortData pair_lt pair_gt (sortData pair_lt pair_gt S k dir) k dir
       = sortData pair_lt pair_gt S k dir
   \<and> sortData asset_lt asset_gt (sortData asset_lt asset_gt A k dir) k dir
       = sortData asset_lt asset_gt A k dir
   \<and> sortedPairs cfg (sortedPairs cfg S) = sortedPairs cfg S
   \<and> sortedAssets cfg (sortedAssets cfg A) = sortedAssets cfg A"
  by (simp add: filteredPairs_idem filteredAssets_idem sortData_pairs_idem sortData_assets_idem
      sortedPairs_idem sortedAssets_idem)


section \<open>The store is only extended\<close>

lemma alloc_old: "alloc h xs = (h', r) \<Longrightarrow> b < length h \<Longrightarrow> h' ! b = h ! b"
  by (auto simp: alloc_def nth_append)

lemma sortData_store_frame:
  assumes "src < length h" and "sortData_store flt fgt h src k dir = (h', r)"
  shows "r = length h" and "length h' = Suc (length h)"
    and "h' ! r = sortData flt fgt (h ! src) k dir"
    and "\<forall>b<length h. h' ! b = h ! b"
  using assms
  by (auto simp: sortData_store_def spread_def alloc_def sort_in_place_def sortData_def nth_append)

lemma array_filter_frame:
  assumes "array_filter h src pred = (h', r)"
  shows "r = length h" and "length h' = Suc (length h)"
    and "h' ! r = filter pred (h ! src)"
    and "\<forall>b<length h. h' ! b = h ! b"
  using assms
  by (auto simp: array_filter_def alloc_def nth_append)

lemma pairs_pipeline_store_frame:
  assumes "src < length h" and "pairs_pipeline_store h (Some src) t cfg = (h', r)"
  shows "(\<forall>b<length h. h' ! b = h ! b) \<and> length h \<le> r \<and> r < length h'
     \<and> h' ! r = sortedPairs cfg (filteredPairs (Some \<lparr>pairs = h ! src\<rparr>) t)"
proof -
  obtain h1 f where f: "array_filter h src (pair_matches t) = (h1, f)"
    by (cases "array_filter h src (pair_matches t)")
  note ff = array_filter_frame [OF f]
  from assms(2) f have s: "sortedPairs_store h1 cfg f = (h', r)"
    by (simp add: pairs_pipeline_store_def filteredPairs_store_def)
  show ?thesis
  proof (cases "\<exists>c. cfg = Some c \<and> length (h1 ! f) > 0")
    case False
    with s have "h' = h1" "r = f"
      by (auto simp: sortedPairs_store_def split: option.splits if_splits)
    with ff False show ?thesis
      by (auto simp: sortedPairs_def filteredPairs_def split: option.splits)
  next
    case True
    then obtain c where c: "cfg = Some c" "length (h1 ! f) > 0" by blast
    with s have sd: "sortData_store pair_lt pair_gt h1 f (key c) (direction c) = (h', r)"
      by (simp add: sortedPairs_store_def)
    have "f < length h1" using ff by simp
    note sf = sortData_store_frame [OF this sd]
    from sf ff c show ?thesis
      by (auto simp: sortedPairs_def filteredPairs_def)
  qed
qed

lemma take_old: "\<forall>b<length h. h' ! b = h ! b \<Longrightarrow> length h \<le> length h' \<Longrightarrow> take (length h) h' = h"
  by (simp add: list_eq_iff_nth_eq)


lemma sort_in_place_reorders:
  "sort_in_place [[btc_usd, eth_usd]] 0
     (comparator (pair_lt ''base_asset'') (pair_gt ''base_asset'') Desc)
   = ([[eth_usd, btc_usd]], 0)"
  by code_simp

text \<open>
  Claim C4. The pipeline does not change the array it is given. For a reference \<open>src\<close>
  to an existing array of pairs, after \<open>sortData\<close>, after the pair filter and after the
  whole derivation every array that existed before the call holds what it held before;
  the result is a new array, and it holds what the function on contents computes.
\<close>

theorem pipeline_leaves_input_unchanged:
  assumes "src < length h"
  shows "(case sortData_store pair_lt pair_gt h src k dir of
            (h', r) \<Rightarrow> take (length h) h' = h \<and> r = length h
              \<and> h' ! r = sortData pair_lt pair_gt (h ! src) k dir)
       \<and> (case filteredPairs_store h (Some src) t of
            (h', r) \<Rightarrow> take (length h) h' = h \<and> r = length h
              \<and> h' ! r = filteredPairs (Some \<lparr>pairs = h ! src\<rparr>) t)
       \<and> (case pairs_pipeline_store h (Some src) t cfg of
            (h', r) \<Rightarrow> take (length h) h' = h \<and> length h \<le> r \<and> r < length h'
              \<and> h' ! r = sortedPairs cfg (filteredPairs (Some \<lparr>pairs = h ! src\<rparr>) t))"
proof -
  obtain h1 r1 where s: "sortData_store pair_lt pair_gt h src k dir = (h1, r1)"
    by (cases "sortData_store pair_lt pair_gt h src k dir")
  obtain h2 r2 where f: "array_filter h src (pair_matches t) = (h2, r2)"
    by (cases "array_filter h src (pair_matches t)")
  obtain h3 r3 where p: "pairs_pipeline_store h (Some src) t cfg = (h3, r3)"
    by (cases "pairs_pipeline_store h (Some src) t cfg")
  note sf = sortData_store_frame [OF assms s]
  note ff = array_filter_frame [OF f]
  note pf = pairs_pipeline_store_frame [OF assms p]
  have "take (length h) h1 = h" using sf by (intro take_old) simp_all
  moreover have "take (length h) h2 = h" using ff by (intro take_old) simp_all
  moreover have "take (length h) h3 = h" using pf by (intro take_old) simp_all
  ultimately show ?thesis
    using s f p sf ff pf by (simp add: filteredPairs_store_def filteredPairs_def)
qed

theorem pipeline_leaves_input_unchanged_witness:
  "sortData_store pair_lt pair_gt [[btc_usd, eth_usd]] 0 ''base_asset'' Desc
     = ([[btc_usd, eth_usd], [eth_usd, btc_usd]], 1)
   \<and> take 1 (fst (pairs_pipeline_store [[btc_usd, eth_usd]] (Some 0) ''usd''
        (Some \<lparr>key = ''base_asset'', direction = Desc\<rparr>))) = [[btc_usd, eth_usd]]"
proof -
  have live: "0 < length [[btc_usd, eth_usd]]" by simp
  have s: "sortData_store pair_lt pair_gt [[btc_usd, eth_usd]] 0 ''base_asset'' Desc
     = ([[btc_usd, eth_usd], [eth_usd, btc_usd]], 1)"
    by code_simp
  from pipeline_leaves_input_unchanged [OF live, of "''base_asset''" Desc "''usd''"
      "Some \<lparr>key = ''base_asset'', direction = Desc\<rparr>"] s
  show ?thesis by (simp split: prod.splits)
qed

section \<open>Properties of the fetcher and of the rendered sections\<close>



lemma assets_section_reads_assets_only:
  assumes "assetsData s = assetsData s'" and "isLoadingAssets s = isLoadingAssets s'"
    and "assetsError s = assetsError s'"
  shows "assets_section s = assets_section s'"
  using assms by (simp add: assets_section_def)

text \<open>
  Claim C8, as the code has it. What the assets section renders is a function of the
  assets query alone: it is the same whatever the pairs query, the filter text and the
  sort configuration are. The pairs section shows its spinner while either query is
  pending, its alert when neither is pending and either has failed, and the cards only
  when both have succeeded.
\<close>

theorem assets_section_independent:
  "assets_section (registry_of a p t cfg) = assets_section (registry_of a p' t' cfg')
   \<and> pairs_section (registry_of a p t cfg) =
      (case (a, p) of
         (Pending, _) \<Rightarrow> PairsSpinner
       | (_, Pending) \<Rightarrow> PairsSpinner
       | (Failed _, _) \<Rightarrow> PairsAlert ''Failed to load data. Please try again later.''
       | (_, Failed _) \<Rightarrow> PairsAlert ''Failed to load data. Please try again later.''
       | (Succeeded A, Succeeded P) \<Rightarrow>
           PairsGrid (sortedPairs cfg (filteredPairs (Some P) t)) (assets_by_id (Some A))
             (length (sortedPairs cfg (filteredPairs (Some P) t)) = 0))"
  by (simp add: assets_section_def pairs_section_def registry_of_def query_data_def
      query_isLoading_def query_error_def Let_def split: query.splits)

theorem assets_section_independent_witness:
  "assets_section (registry_of (Succeeded \<lparr>assets = [usd_asset]\<rparr>)
      (Failed (Unexpected ''An unexpected error occurred while fetching trading pairs''))
      ''btc'' None)
     = \<lparr>spinner = False, alert = None, rows = [usd_asset]\<rparr>
   \<and> pairs_section (registry_of (Succeeded \<lparr>assets = [usd_asset]\<rparr>)
      (Failed (Unexpected ''An unexpected error occurred while fetching trading pairs''))
      ''btc'' None)
     = PairsAlert ''Failed to load data. Please try again later.''"
proof -
  have "assets_section (registry_of (Succeeded \<lparr>assets = [usd_asset]\<rparr>) Pending [] None)
     = \<lparr>spinner = False, alert = None, rows = [usd_asset]\<rparr>"
    by (simp add: assets_section_def registry_of_def query_data_def query_isLoading_def
        query_error_def)
  with assets_section_independent [of "Succeeded \<lparr>assets = [usd_asset]\<rparr>"
      "Failed (Unexpected ''An unexpected error occurred while fetching trading pairs'')"
      "''btc''" None Pending "[]" None]
  show ?thesis by simp
qed

text \<open>
  The pairs section is not a function of the pairs query alone: with the same successful
  pairs query it shows the alert when the assets query has failed and the cards when it
  has succeeded.
\<close>

theorem pairs_section_depends_on_assets:
  "pairs_section (registry_of (Failed (Api (normalize ''Failed to fetch assets'' db_down)))
      (Succeeded \<lparr>pairs = [btc_usd]\<rparr>) [] None)
   \<noteq> pairs_section (registry_of (Succeeded \<lparr>assets = [usd_asset]\<rparr>)
      (Succeeded \<lparr>pairs = [btc_usd]\<rparr>) [] None)"
  by (simp add: pairs_section_def registry_of_def query_data_def
      query_isLoading_def query_error_def Let_def)

end
